theory Spec2Isabelle
  imports Complex_Main
begin

section \<open>The breathing timer of \<open>script.js\<close>\<close>

text \<open>
  A shallow embedding of \<open>fmt\<close> and of \<open>practiceController\<close> from
  \<open>src/HTMLCSSJS/script.js\<close>. The closure variables of the controller, the properties
  of the DOM elements it touches and the browser's table of interval timers are the
  fields of one record; every function of the controller takes the state and returns
  the new one.

  Numbers. The controller's numbers are results of \<open>parseInt\<close> and of \<open>+ 1\<close>,
  \<open>- 1\<close>, \<open>%\<close> and \<open>Math.min\<close> on them; they are modelled as \<open>int\<close>, with exact
  arithmetic. The source computes on doubles, which are exact on integers only while
  the magnitudes stay below \<open>2 ^ 53\<close>: a theorem that depends on a subtraction or a
  division being exact for a number of any size carries that bound as a hypothesis.
  \<open>NaN\<close>, the only other result of \<open>parseInt\<close>, is \<open>None\<close>. The argument of
  \<open>fmt\<close> is any number, a \<open>real\<close>; \<open>NaN\<close> and the infinities have no counterpart.

  Elements. \<open>getElementById\<close> is taken to find each of the nine elements the
  controller reads or writes (\<open>reset\<close>, called when the controller is built, reads
  \<open>tempoSel.value\<close> without a check).
\<close>

subsection \<open>Number to string, \<open>padStart\<close>, \<open>fmt\<close>\<close>

definition digit_char :: "nat \<Rightarrow> char" where
  "digit_char d = ''0123456789'' ! d"

text \<open>
  \<open>Number.prototype.toString()\<close> on a non-negative integer: its decimal digits (the
  source writes them so below \<open>10 ^ 21\<close>).
\<close>

fun nat_toString :: "nat \<Rightarrow> string" where
  "nat_toString n =
     (if n < 10 then [digit_char n]
      else nat_toString (n div 10) @ [digit_char (n mod 10)])"

declare nat_toString.simps [simp del]

definition toString :: "int \<Rightarrow> string" where
  "toString n = (if n < 0 then CHR ''-'' # nat_toString (nat (- n)) else nat_toString (nat n))"

text \<open>
  \<open>str.padStart(targetLength, c)\<close> with a filler of one character: the string itself
  when it is long enough already (the subtraction on \<open>nat\<close> stops at 0).
\<close>

definition padStart :: "nat \<Rightarrow> char \<Rightarrow> string \<Rightarrow> string" where
  "padStart targetLength c str = replicate (targetLength - length str) c @ str"

text \<open>
  \<open>fmt(seconds)\<close>, lines 4 to 9: \<open>s\<close> is \<open>Math.max(0, Math.floor(seconds))\<close>, an
  integer; \<open>Math.floor(s / 60)\<close> on the non-negative \<open>s\<close> is \<open>s div 60\<close>, and
  \<open>s % 60\<close> is \<open>s mod 60\<close>.
\<close>

definition fmt :: "real \<Rightarrow> string" where
  "fmt seconds =
     (let s = max 0 \<lfloor>seconds\<rfloor>;
          m = padStart 2 (CHR ''0'') (toString (s div 60));
          ss = padStart 2 (CHR ''0'') (toString (s mod 60))
      in m @ '':'' @ ss)"

text \<open>
  The formatter in the words of the specification: the minutes
  \<open>floor(max(0,s)/60)\<close> in two digits, a colon, the seconds \<open>max(0,s) mod 60\<close> in two
  digits. The remainder of a number that need not be whole is the number less the
  whole multiples of the modulus in it. "Zero-padded to 2 digits" is read as: the
  whole part of the number is written, a single digit with a leading zero, and two
  digits or more as they are.
\<close>

definition two_digits :: "nat \<Rightarrow> string" where
  "two_digits n = (if n < 10 then [CHR ''0'', digit_char n] else nat_toString n)"

definition real_mod :: "real \<Rightarrow> real \<Rightarrow> real" where
  "real_mod x m = x - m * of_int \<lfloor>x / m\<rfloor>"

definition fmt_spec :: "real \<Rightarrow> string" where
  "fmt_spec s =
     two_digits (nat \<lfloor>max 0 s / 60\<rfloor>) @ [CHR '':''] @
     two_digits (nat \<lfloor>real_mod (max 0 s) 60\<rfloor>)"

subsection \<open>\<open>parseInt(str, 10)\<close> and \<open>||\<close>\<close>

text \<open>
  \<open>parseInt\<close> with radix 10: leading white space is skipped, one sign is read, and the
  longest run of decimal digits that follows is the value; with no digit there the
  result is \<open>NaN\<close>. Characters are bytes here, so the white space is the ASCII part of
  the language's white space and line terminators.
\<close>

definition isWhiteSpace :: "char \<Rightarrow> bool" where
  "isWhiteSpace c = (c \<in> set [CHR '' '', CHR 0x09, CHR 0x0A, CHR 0x0B, CHR 0x0C, CHR 0x0D])"

definition isDigit :: "char \<Rightarrow> bool" where
  "isDigit c = (c \<in> set ''0123456789'')"

definition digitVal :: "char \<Rightarrow> nat" where
  "digitVal c = (of_char c :: nat) - 48"

definition digitsVal :: "string \<Rightarrow> nat" where
  "digitsVal ds = foldl (\<lambda>a c. 10 * a + digitVal c) 0 ds"

definition parseInt :: "string \<Rightarrow> int option" where
  "parseInt str =
     (let s1 = dropWhile isWhiteSpace str;
          neg = (s1 \<noteq> [] \<and> hd s1 = CHR ''-'');
          s2 = (if s1 \<noteq> [] \<and> (hd s1 = CHR ''-'' \<or> hd s1 = CHR ''+'') then tl s1 else s1);
          ds = takeWhile isDigit s2
      in if ds = [] then None
         else Some (if neg then - int (digitsVal ds) else int (digitsVal ds)))"

text \<open>
  \<open>x || d\<close> on a number \<open>x\<close>: \<open>NaN\<close> and zero (of either sign) are falsy and give
  \<open>d\<close>; every other number is truthy and is the result.
\<close>

definition or_default :: "int option \<Rightarrow> int \<Rightarrow> int" where
  "or_default x d = (case x of None \<Rightarrow> d | Some n \<Rightarrow> if n = 0 then d else n)"

text \<open>
  \<open>a % b\<close> of JavaScript: the remainder of the division that truncates towards zero,
  with the sign of the dividend.
\<close>

definition js_rem :: "int \<Rightarrow> int \<Rightarrow> int" where
  "js_rem a b = sgn a * (\<bar>a\<bar> mod \<bar>b\<bar>)"

subsection \<open>The state of the controller\<close>

record timer_state =
  tempoSel_value :: string
  durSel_value :: string
  circle_transition :: string
  circle_transform :: string
  cue_textContent :: string
  timeLeftEl_textContent :: string
  startBtn_disabled :: bool
  pauseBtn_disabled :: bool
  resetBtn_disabled :: bool
  prefersReduced :: bool
  total :: int
  tempo :: int
  phaseIdx :: int
  phaseTimeLeft :: int
  timeLeft :: int
  running :: bool
  interval :: "nat option"
  timers :: "nat list"
  next_handle :: nat

text \<open>
  The last two fields are the browser's side of \<open>setInterval\<close> and
  \<open>clearInterval\<close>: the handles of the interval timers of this controller that are
  active, and the next handle to give out. \<open>setInterval\<close> returns a handle never
  returned before; \<open>clearInterval\<close> of \<open>null\<close> or of a handle that is not active
  does nothing.
\<close>

definition setInterval :: "timer_state \<Rightarrow> nat \<times> timer_state" where
  "setInterval s =
     (next_handle s, s\<lparr>timers := timers s @ [next_handle s], next_handle := Suc (next_handle s)\<rparr>)"

definition clearInterval :: "nat option \<Rightarrow> timer_state \<Rightarrow> timer_state" where
  "clearInterval h s =
     (case h of None \<Rightarrow> s | Some i \<Rightarrow> s\<lparr>timers := removeAll i (timers s)\<rparr>)"

text \<open>
  A handler either returns or throws the \<open>TypeError\<close> of reading a property of
  \<open>undefined\<close>; the state it leaves behind is kept in both cases, since the page goes
  on handling events after an uncaught exception.
\<close>

datatype 'a outcome = Returned 'a | Threw 'a

fun state_of :: "'a outcome \<Rightarrow> 'a" where
  "state_of (Returned s) = s"
| "state_of (Threw s) = s"

fun returned :: "'a outcome \<Rightarrow> bool" where
  "returned (Returned s) = True"
| "returned (Threw s) = False"

subsection \<open>The phases and the functions of the controller\<close>

record phase =
  key :: string
  label :: string
  scale :: string

text \<open>
  The table \<open>phases\<close>, lines 104 to 109. The field \<open>scale\<close> holds the text that the
  template \<open>`scale(${ph.scale})`\<close> puts in for the number: \<open>1.28\<close> gives \<open>1.28\<close>, and
  the literal \<open>1.00\<close> is the number 1, which gives \<open>1\<close>.
\<close>

definition phases :: "phase list" where
  "phases =
     [\<lparr>key = ''inhale'', label = ''Inhale'', scale = ''1.28''\<rparr>,
      \<lparr>key = ''hold1'', label = ''Hold'', scale = ''1.28''\<rparr>,
      \<lparr>key = ''exhale'', label = ''Exhale'', scale = ''1''\<rparr>,
      \<lparr>key = ''hold2'', label = ''Hold'', scale = ''1''\<rparr>]"

text \<open>\<open>phases[p]\<close>: \<open>undefined\<close> outside the array.\<close>

definition phases_at :: "int \<Rightarrow> phase option" where
  "phases_at p = (if 0 \<le> p \<and> p < int (length phases) then Some (phases ! nat p) else None)"

definition applyTransitionDuration :: "int \<Rightarrow> timer_state \<Rightarrow> timer_state" where
  "applyTransitionDuration sec s =
     (if prefersReduced s then s\<lparr>circle_transition := ''none''\<rparr>
      else s\<lparr>circle_transition := ''transform '' @ toString sec @ ''s ease-in-out''\<rparr>)"

definition setPhase :: "int \<Rightarrow> timer_state \<Rightarrow> timer_state outcome" where
  "setPhase p s =
     (case phases_at p of
        None \<Rightarrow> Threw s
      | Some ph \<Rightarrow>
          Returned ((applyTransitionDuration (tempo s) (s\<lparr>cue_textContent := label ph\<rparr>))
                      \<lparr>circle_transform := ''scale('' @ scale ph @ '')''\<rparr>))"

definition updateTime :: "timer_state \<Rightarrow> timer_state" where
  "updateTime s = s\<lparr>timeLeftEl_textContent := fmt (of_int (timeLeft s))\<rparr>"

definition stop :: "timer_state \<Rightarrow> timer_state" where
  "stop s =
     clearInterval (interval s)
       (s\<lparr>running := False, startBtn_disabled := False, pauseBtn_disabled := True\<rparr>)"

definition tick :: "timer_state \<Rightarrow> timer_state outcome" where
  "tick s =
     (if \<not> running s then Returned s
      else
        case (if phaseTimeLeft s \<le> 0
              then (let s1 = s\<lparr>phaseIdx := js_rem (phaseIdx s + 1) (int (length phases))\<rparr>;
                        s2 = s1\<lparr>phaseTimeLeft := tempo s1\<rparr>
                    in setPhase (phaseIdx s2) s2)
              else Returned s) of
          Threw s' \<Rightarrow> Threw s'
        | Returned s' \<Rightarrow>
            if timeLeft s' \<le> 0
            then Returned ((stop s')\<lparr>cue_textContent := ''Complete'',
                                     circle_transform := ''scale(1)''\<rparr>)
            else Returned (updateTime (s'\<lparr>phaseTimeLeft := phaseTimeLeft s' - 1,
                                          timeLeft := timeLeft s' - 1\<rparr>)))"

definition start :: "timer_state \<Rightarrow> timer_state outcome" where
  "start s =
     (if running s then Returned s
      else
        case setPhase (phaseIdx s)
               (s\<lparr>running := True, startBtn_disabled := True,
                   pauseBtn_disabled := False, resetBtn_disabled := False\<rparr>) of
          Threw s' \<Rightarrow> Threw s'
        | Returned s' \<Rightarrow>
            (let (h, s'') = setInterval (updateTime s') in Returned (s''\<lparr>interval := Some h\<rparr>)))"

definition pause :: "timer_state \<Rightarrow> timer_state" where
  "pause s =
     (if \<not> running s then s
      else clearInterval (interval s)
             (s\<lparr>running := False, startBtn_disabled := False, pauseBtn_disabled := True\<rparr>))"

definition reset :: "timer_state \<Rightarrow> timer_state" where
  "reset s =
     (let s1 = stop s;
          s2 = s1\<lparr>tempo := or_default (parseInt (tempoSel_value s1)) 4\<rparr>;
          s3 = s2\<lparr>total := or_default (parseInt (durSel_value s2)) 60\<rparr>;
          s4 = s3\<lparr>timeLeft := total s3\<rparr>;
          s5 = s4\<lparr>phaseIdx := 0\<rparr>;
          s6 = s5\<lparr>phaseTimeLeft := tempo s5\<rparr>;
          s7 = s6\<lparr>circle_transform := ''scale(1)''\<rparr>;
          s8 = s7\<lparr>cue_textContent := ''Ready''\<rparr>
      in updateTime s8)"

text \<open>The \<open>change\<close> handlers of the two select elements, lines 196 to 204.\<close>

definition tempoSel_change :: "timer_state \<Rightarrow> timer_state" where
  "tempoSel_change s =
     (let s1 = s\<lparr>tempo := or_default (parseInt (tempoSel_value s)) 4\<rparr>
      in s1\<lparr>phaseTimeLeft := tempo s1\<rparr>)"

definition durSel_change :: "timer_state \<Rightarrow> timer_state" where
  "durSel_change s =
     (let s1 = s\<lparr>total := or_default (parseInt (durSel_value s)) 60\<rparr>;
          s2 = s1\<lparr>timeLeft := min (timeLeft s1) (total s1)\<rparr>
      in updateTime s2)"

subsection \<open>The page: construction and events\<close>

text \<open>
  What the document holds when the controller is built: the values of the two select
  elements, the texts and styles of the display and the \<open>disabled\<close> flags of the
  buttons, all given by the page's HTML, and the answer of the media query.
\<close>

record document =
  doc_tempo :: string
  doc_duration :: string
  doc_transition :: string
  doc_transform :: string
  doc_cue :: string
  doc_timeLeft :: string
  doc_startDisabled :: bool
  doc_pauseDisabled :: bool
  doc_resetDisabled :: bool
  doc_prefersReduced :: bool

text \<open>
  \<open>practiceController()\<close>: the variables get their initial values (lines 96 to 102),
  no interval timer exists yet, and \<open>reset()\<close> runs (line 216).
\<close>

definition practiceController :: "document \<Rightarrow> timer_state" where
  "practiceController d =
     reset \<lparr>tempoSel_value = doc_tempo d, durSel_value = doc_duration d,
            circle_transition = doc_transition d, circle_transform = doc_transform d,
            cue_textContent = doc_cue d, timeLeftEl_textContent = doc_timeLeft d,
            startBtn_disabled = doc_startDisabled d, pauseBtn_disabled = doc_pauseDisabled d,
            resetBtn_disabled = doc_resetDisabled d, prefersReduced = doc_prefersReduced d,
            total = 60, tempo = 4, phaseIdx = 0, phaseTimeLeft = 4, timeLeft = 60,
            running = False, interval = None, timers = [], next_handle = 1\<rparr>"

text \<open>
  The events of the page that reach the controller: the three buttons, the user
  choosing an option of a select element (the element's value changes, then its
  \<open>change\<close> handler runs), and an interval timer firing. A timer fires only while it
  is active.
\<close>

datatype event =
  Start | Pause | Reset | Tick | TempoChange string | DurationChange string

fun step :: "timer_state \<Rightarrow> event \<Rightarrow> timer_state" where
  "step s Start = state_of (start s)"
| "step s Pause = pause s"
| "step s Reset = reset s"
| "step s Tick = (if timers s = [] then s else state_of (tick s))"
| "step s (TempoChange v) = tempoSel_change (s\<lparr>tempoSel_value := v\<rparr>)"
| "step s (DurationChange v) = durSel_change (s\<lparr>durSel_value := v\<rparr>)"

definition run :: "timer_state \<Rightarrow> event list \<Rightarrow> timer_state" where
  "run s es = foldl step s es"

subsection \<open>Well-formed states and an example page\<close>

text \<open>
  The states the page can be in satisfy: the phase index is an index of \<open>phases\<close>;
  the variable \<open>interval\<close> holds a handle that has been given out; while running
  the one active timer is the one \<open>interval\<close> holds and the label is the one of the
  current phase; while not running no timer is active.
\<close>

definition wf_state :: "timer_state \<Rightarrow> bool" where
  "wf_state s =
     (0 \<le> phaseIdx s \<and> phaseIdx s < 4 \<and>
      (\<not> running s \<or> cue_textContent s = label (phases ! nat (phaseIdx s))) \<and>
      (case interval s of
         None \<Rightarrow> \<not> running s \<and> timers s = []
       | Some h \<Rightarrow> h < next_handle s \<and> timers s = (if running s then [h] else [])))"

text \<open>A page whose select elements offer a tempo of 4 and a duration of 8 seconds.\<close>

definition example_doc :: document where
  "example_doc =
     \<lparr>doc_tempo = ''4'', doc_duration = ''8'', doc_transition = '''',
      doc_transform = '''', doc_cue = ''Ready'', doc_timeLeft = ''01:00'',
      doc_startDisabled = False, doc_pauseDisabled = True, doc_resetDisabled = False,
      doc_prefersReduced = False\<rparr>"

section \<open>Formatting\<close>

lemma nat_toString_small: "n < 10 \<Longrightarrow> nat_toString n = [digit_char n]"
  by (simp add: nat_toString.simps)

lemma nat_toString_nonempty: "nat_toString n \<noteq> []"
  by (subst nat_toString.simps) simp

lemma length_nat_toString_large: "10 \<le> n \<Longrightarrow> 2 \<le> length (nat_toString n)"
proof -
  assume "10 \<le> n"
  moreover have "1 \<le> length (nat_toString (n div 10))"
    using nat_toString_nonempty [of "n div 10"] by (simp add: Suc_le_eq)
  ultimately show ?thesis
    by (subst nat_toString.simps) simp
qed

lemma padStart_two_digits: "padStart 2 (CHR ''0'') (nat_toString n) = two_digits n"
proof (cases "n < 10")
  case True
  then show ?thesis
    by (simp add: padStart_def two_digits_def nat_toString_small)
next
  case False
  then have "2 \<le> length (nat_toString n)"
    by (simp add: length_nat_toString_large)
  with False show ?thesis
    by (simp add: padStart_def two_digits_def)
qed

lemma floor_max0: "\<lfloor>max 0 x\<rfloor> = max 0 \<lfloor>x :: real\<rfloor>"
  by (simp add: max_def)

lemma spec_minutes: "\<lfloor>max 0 x / 60\<rfloor> = max 0 \<lfloor>x :: real\<rfloor> div 60"
proof -
  have "\<lfloor>max 0 x / real_of_int 60\<rfloor> = \<lfloor>max 0 x\<rfloor> div 60"
    by (rule floor_divide_real_eq_div) simp
  then show ?thesis by (simp add: floor_max0)
qed

lemma spec_seconds: "\<lfloor>real_mod (max 0 x) 60\<rfloor> = max 0 \<lfloor>x :: real\<rfloor> mod 60"
proof -
  let ?q = "max 0 \<lfloor>x\<rfloor> div 60"
  have "real_mod (max 0 x) 60 = max 0 x - of_int (60 * ?q)"
    by (simp add: real_mod_def spec_minutes)
  then have "\<lfloor>real_mod (max 0 x) 60\<rfloor> = \<lfloor>max 0 x\<rfloor> - 60 * ?q"
    by (simp only: floor_diff_of_int)
  also have "\<dots> = max 0 \<lfloor>x\<rfloor> mod 60"
    by (simp add: floor_max0 minus_mult_div_eq_mod)
  finally show ?thesis .
qed

lemma fmt_refines: "fmt x = fmt_spec x"
proof -
  let ?s = "max 0 \<lfloor>x\<rfloor>"
  have d: "\<not> ?s div 60 < 0" and m: "\<not> ?s mod 60 < 0"
    by (simp_all add: not_less pos_imp_zdiv_nonneg_iff)
  show ?thesis
    unfolding fmt_def fmt_spec_def Let_def spec_minutes spec_seconds toString_def
    using d m by (simp add: padStart_two_digits)
qed

text \<open>
  C9. For every number of seconds \<open>s\<close>, whole or not, in the range where the
  source's arithmetic is exact (below \<open>2 ^ 53\<close>), \<open>fmt s\<close> is the minutes
  \<open>floor(max(0,s)/60)\<close> zero-padded to two digits, a colon, and the seconds
  \<open>max(0,s) mod 60\<close> zero-padded to two digits; \<open>fmt(65)\<close> is \<open>01:05\<close>, \<open>fmt(0)\<close> is
  \<open>00:00\<close>, and the negative \<open>fmt(-5)\<close> is clamped to \<open>00:00\<close>.
\<close>

theorem fmt_correct:
  "(x < 2 ^ 53 \<longrightarrow> fmt x = fmt_spec x) \<and>
   fmt 65 = ''01:05'' \<and> fmt 0 = ''00:00'' \<and> fmt (- 5) = ''00:00''"
proof -
  have "fmt 65 = ''01:05''" "fmt 0 = ''00:00''" "fmt (- 5) = ''00:00''"
    by code_simp+
  then show ?thesis
    by (simp add: fmt_refines)
qed

text \<open>At 65.9 seconds, which the source floors to 65, both sides are \<open>01:05\<close>.\<close>

theorem fmt_correct_witness:
  "(659 / 10 :: real) < 2 ^ 53 \<and> fmt (659 / 10) = fmt_spec (659 / 10) \<and>
   fmt (659 / 10) = ''01:05'' \<and> fmt_spec (659 / 10) = ''01:05''"
proof -
  have a: "(659 / 10 :: real) < 2 ^ 53" by simp
  have b: "fmt (659 / 10) = ''01:05''" by code_simp
  from fmt_correct [of "659 / 10"] a b show ?thesis by simp
qed

section \<open>Every state of the page is well-formed\<close>

lemmas parse_defs = parseInt_def isWhiteSpace_def isDigit_def digitsVal_def digitVal_def

lemma js_rem_nonneg: "0 \<le> a \<Longrightarrow> js_rem a 4 = a mod 4"
  by (simp add: js_rem_def sgn_if)

lemma length_phases: "int (length phases) = 4"
  by (simp add: phases_def)

lemma phases_at_Some: "0 \<le> p \<Longrightarrow> p < 4 \<Longrightarrow> phases_at p = Some (phases ! nat p)"
  by (simp add: phases_at_def length_phases)

lemma wf_reset: "wf_state s \<Longrightarrow> wf_state (reset s)"
  by (auto simp: wf_state_def reset_def Let_def updateTime_def stop_def clearInterval_def
      split: option.splits)

lemma wf_pause: "wf_state s \<Longrightarrow> wf_state (pause s)"
  by (auto simp: wf_state_def pause_def clearInterval_def split: option.splits)

lemma wf_tempoSel_change: "wf_state s \<Longrightarrow> wf_state (tempoSel_change (s\<lparr>tempoSel_value := v\<rparr>))"
  by (auto simp: wf_state_def tempoSel_change_def Let_def split: option.splits)

lemma wf_durSel_change: "wf_state s \<Longrightarrow> wf_state (durSel_change (s\<lparr>durSel_value := v\<rparr>))"
  by (auto simp: wf_state_def durSel_change_def Let_def updateTime_def split: option.splits)

text \<open>On a well-formed state neither \<open>start\<close> nor \<open>tick\<close> throws.\<close>

lemma start_wf:
  assumes "wf_state s"
  shows "returned (start s) \<and> wf_state (state_of (start s))"
  using assms
  by (auto simp: wf_state_def start_def setPhase_def phases_at_Some setInterval_def
      updateTime_def applyTransitionDuration_def split: option.splits)

lemma tick_wf:
  assumes "wf_state s"
  shows "returned (tick s) \<and> wf_state (state_of (tick s))"
  using assms
  by (auto simp: wf_state_def tick_def setPhase_def phases_at_Some length_phases js_rem_nonneg
      updateTime_def applyTransitionDuration_def stop_def clearInterval_def Let_def
      split: option.splits)

lemma wf_step: "wf_state s \<Longrightarrow> wf_state (step s e)"
  by (cases e)
    (simp_all add: start_wf tick_wf wf_pause wf_reset wf_tempoSel_change wf_durSel_change)

lemma wf_init: "wf_state (practiceController d)"
  by (simp add: practiceController_def wf_state_def reset_def Let_def updateTime_def
      stop_def clearInterval_def)

lemma run_Nil: "run s [] = s"
  by (simp add: run_def)

lemma run_Cons: "run s (e # es) = run (step s e) es"
  by (simp add: run_def)

lemma run_snoc: "run s (es @ [e]) = step (run s es) e"
  by (simp add: run_def)

lemma wf_run: "wf_state s \<Longrightarrow> wf_state (run s es)"
  by (induction es rule: rev_induct) (simp_all add: run_def wf_step)

lemma wf_reachable: "wf_state (run (practiceController d) es)"
  by (simp add: wf_run wf_init)

lemma init_fields:
  "\<not> running (practiceController d) \<and> phaseIdx (practiceController d) = 0 \<and>
   tempo (practiceController d) = or_default (parseInt (doc_tempo d)) 4 \<and>
   phaseTimeLeft (practiceController d) = or_default (parseInt (doc_tempo d)) 4 \<and>
   timeLeft (practiceController d) = or_default (parseInt (doc_duration d)) 60"
  by (simp add: practiceController_def reset_def Let_def updateTime_def stop_def
      clearInterval_def)

lemma start_effect:
  assumes "wf_state s" and "\<not> running s"
  shows "running (step s Start) \<and> tempo (step s Start) = tempo s \<and>
         phaseIdx (step s Start) = phaseIdx s \<and>
         phaseTimeLeft (step s Start) = phaseTimeLeft s \<and>
         timeLeft (step s Start) = timeLeft s"
  using assms
  by (auto simp: wf_state_def start_def setPhase_def phases_at_Some setInterval_def
      updateTime_def applyTransitionDuration_def split: option.splits)

lemma started_fields:
  "wf_state (step (practiceController d) Start) \<and>
   running (step (practiceController d) Start) \<and>
   phaseIdx (step (practiceController d) Start) = 0 \<and>
   tempo (step (practiceController d) Start) = or_default (parseInt (doc_tempo d)) 4 \<and>
   phaseTimeLeft (step (practiceController d) Start) = or_default (parseInt (doc_tempo d)) 4 \<and>
   timeLeft (step (practiceController d) Start) = or_default (parseInt (doc_duration d)) 60"
  using start_effect [OF wf_init, of d] init_fields [of d] wf_step [OF wf_init, of d Start]
  by (simp del: step.simps)

section \<open>What one tick does, and what many do\<close>

lemma step_Tick_running: "wf_state s \<Longrightarrow> running s \<Longrightarrow> step s Tick = state_of (tick s)"
  by (auto simp: wf_state_def split: option.splits)

lemma step_Tick_idle: "\<not> running s \<Longrightarrow> step s Tick = s"
  by (simp add: tick_def)

lemma tick_countdown:
  assumes "wf_state s" and "running s" and "0 < timeLeft s"
  shows "running (step s Tick) \<and> timeLeft (step s Tick) = timeLeft s - 1 \<and>
         tempo (step s Tick) = tempo s \<and>
         phaseIdx (step s Tick) =
           (if phaseTimeLeft s \<le> 0 then (phaseIdx s + 1) mod 4 else phaseIdx s) \<and>
         phaseTimeLeft (step s Tick) =
           (if phaseTimeLeft s \<le> 0 then tempo s - 1 else phaseTimeLeft s - 1)"
proof -
  have e: "step s Tick = state_of (tick s)"
    using assms(1,2) by (rule step_Tick_running)
  show ?thesis
    unfolding e using assms
    by (auto simp: wf_state_def tick_def setPhase_def phases_at_Some
        length_phases js_rem_nonneg updateTime_def applyTransitionDuration_def Let_def)
qed

lemma tick_complete:
  assumes "wf_state s" and "running s" and "timeLeft s \<le> 0"
  shows "\<not> running (step s Tick) \<and> timers (step s Tick) = [] \<and>
         timeLeft (step s Tick) = timeLeft s \<and>
         cue_textContent (step s Tick) = ''Complete'' \<and>
         circle_transform (step s Tick) = ''scale(1)'' \<and>
         phaseIdx (step s Tick) =
           (if phaseTimeLeft s \<le> 0 then (phaseIdx s + 1) mod 4 else phaseIdx s)"
proof -
  have e: "step s Tick = state_of (tick s)"
    using assms(1,2) by (rule step_Tick_running)
  show ?thesis
    unfolding e using assms
    by (auto simp: wf_state_def tick_def setPhase_def phases_at_Some
        length_phases js_rem_nonneg updateTime_def applyTransitionDuration_def Let_def
        stop_def clearInterval_def split: option.splits)
qed

lemma run_ticks_idle: "\<not> running s \<Longrightarrow> run s (replicate k Tick) = s"
  by (induction k) (simp_all add: run_Nil run_Cons step_Tick_idle del: step.simps)

lemma run_ticks_countdown:
  assumes "wf_state s" and "running s" and "0 \<le> timeLeft s"
  shows "timeLeft (run s (replicate k Tick)) = max 0 (timeLeft s - int k) \<and>
         running (run s (replicate k Tick)) = (int k \<le> timeLeft s)"
  using assms
proof (induction k arbitrary: s)
  case 0
  then show ?case by (simp add: run_Nil)
next
  case (Suc k)
  show ?case
  proof (cases "timeLeft s = 0")
    case True
    with Suc.prems have "\<not> running (step s Tick)" "timeLeft (step s Tick) = 0"
      using tick_complete [of s] by simp_all
    then show ?thesis
      using True by (simp add: run_Cons run_ticks_idle del: step.simps)
  next
    case False
    with Suc.prems have pos: "0 < timeLeft s" by simp
    from tick_countdown [OF Suc.prems(1,2) pos]
    have r: "running (step s Tick)" and t: "timeLeft (step s Tick) = timeLeft s - 1"
      by simp_all
    have w: "wf_state (step s Tick)"
      using Suc.prems(1) by (rule wf_step)
    from Suc.IH [OF w r] t pos show ?thesis
      by (auto simp: run_Cons diff_diff_eq simp del: step.simps)
  qed
qed

text \<open>
  From the beginning of a phase (\<open>phaseTimeLeft = tempo = t\<close>) and while the session
  lasts: the tick number \<open>m + 1\<close> has crossed \<open>m div t\<close> phase boundaries, the first one
  at tick \<open>t + 1\<close>.
\<close>

lemma run_ticks_phase:
  assumes "wf_state s" and "running s" and "tempo s = int t" and "0 < t"
    and "phaseTimeLeft s = int t" and "int (Suc m) \<le> timeLeft s"
  shows "running (run s (replicate (Suc m) Tick)) \<and>
         tempo (run s (replicate (Suc m) Tick)) = int t \<and>
         timeLeft (run s (replicate (Suc m) Tick)) = timeLeft s - int (Suc m) \<and>
         phaseIdx (run s (replicate (Suc m) Tick)) = (phaseIdx s + int (m div t)) mod 4 \<and>
         phaseTimeLeft (run s (replicate (Suc m) Tick)) = int t - 1 - int (m mod t)"
  using assms(6)
proof (induction m)
  case 0
  have idx: "0 \<le> phaseIdx s" "phaseIdx s < 4"
    using assms(1) by (simp_all add: wf_state_def)
  from 0 have pos: "0 < timeLeft s" by simp
  have one: "run s (replicate (Suc 0) Tick) = step s Tick"
    by (simp add: run_def del: step.simps)
  from tick_countdown [OF assms(1,2) pos] assms(3-5) idx
  show ?case
    unfolding one by simp
next
  case (Suc m)
  let ?s' = "run s (replicate (Suc m) Tick)"
  from Suc.prems have le: "int (Suc m) \<le> timeLeft s" by simp
  note ih = Suc.IH [OF le]
  have w: "wf_state ?s'"
    using assms(1) by (rule wf_run)
  have r: "running ?s'" using ih by simp
  have pos: "0 < timeLeft ?s'"
    using ih Suc.prems by simp
  have "replicate (Suc (Suc m)) Tick = replicate (Suc m) Tick @ [Tick]"
    by (simp add: replicate_append_same)
  then have snoc: "run s (replicate (Suc (Suc m)) Tick) = step ?s' Tick"
    by (simp only: run_snoc)
  have lt: "m mod t < t" using assms(4) by simp
  note st = tick_countdown [OF w r pos]
  show ?case
  proof (cases "Suc (m mod t) = t")
    case True
    then have b: "phaseTimeLeft ?s' \<le> 0"
      using ih by simp
    have dm: "Suc m div t = Suc (m div t)" "Suc m mod t = 0"
      using True by (simp_all add: div_Suc mod_Suc)
    have "phaseIdx ?s' = (phaseIdx s + int (m div t)) mod 4"
      using ih by simp
    then have "(phaseIdx ?s' + 1) mod 4 = ((phaseIdx s + int (m div t)) mod 4 + 1) mod 4"
      by (rule arg_cong)
    also have "\<dots> = (phaseIdx s + int (m div t) + 1) mod 4"
      by (rule mod_add_left_eq)
    also have "\<dots> = (phaseIdx s + int (Suc m div t)) mod 4"
      by (simp add: dm(1) ac_simps)
    finally have "(phaseIdx ?s' + 1) mod 4 = (phaseIdx s + int (Suc m div t)) mod 4" .
    with st b ih dm show ?thesis
      unfolding snoc by (simp del: step.simps)
  next
    case False
    then have nb: "\<not> phaseTimeLeft ?s' \<le> 0"
      using ih lt by simp
    have dm: "Suc m div t = m div t" "Suc m mod t = Suc (m mod t)"
      using False by (simp_all add: div_Suc mod_Suc)
    from st nb ih dm show ?thesis
      unfolding snoc by (simp del: step.simps)
  qed
qed

text \<open>No phase boundary is crossed by the first \<open>phaseTimeLeft\<close> ticks.\<close>

lemma run_ticks_no_boundary:
  assumes "wf_state s" and "int k \<le> phaseTimeLeft s"
  shows "phaseIdx (run s (replicate k Tick)) = phaseIdx s"
  using assms
proof (induction k arbitrary: s)
  case 0
  then show ?case by (simp add: run_Nil)
next
  case (Suc k)
  then have p: "0 < phaseTimeLeft s" by simp
  show ?case
  proof (cases "running s")
    case False
    then have "run s (replicate (Suc k) Tick) = s" by (rule run_ticks_idle)
    then show ?thesis by (rule arg_cong)
  next
    case True
    show ?thesis
    proof (cases "0 < timeLeft s")
      case True
      from tick_countdown [OF Suc.prems(1) \<open>running s\<close> True] p
      have i: "phaseIdx (step s Tick) = phaseIdx s"
        and q: "phaseTimeLeft (step s Tick) = phaseTimeLeft s - 1"
        by simp_all
      have "int k \<le> phaseTimeLeft (step s Tick)"
        using Suc.prems(2) q by simp
      from Suc.IH [OF wf_step [OF Suc.prems(1)] this] i show ?thesis
        by (simp add: run_Cons del: step.simps)
    next
      case False
      then have "timeLeft s \<le> 0" by simp
      from tick_complete [OF Suc.prems(1) \<open>running s\<close> this] p
      have "\<not> running (step s Tick)" "phaseIdx (step s Tick) = phaseIdx s"
        by simp_all
      then show ?thesis
        by (simp add: run_Cons run_ticks_idle del: step.simps)
    qed
  qed
qed

lemma wf_timers: "wf_state s \<Longrightarrow> length (timers s) = (if running s then 1 else 0)"
  by (auto simp: wf_state_def split: option.splits)

lemma pause_timers: "wf_state s \<Longrightarrow> timers (pause s) = []"
  by (auto simp: wf_state_def pause_def clearInterval_def split: option.splits)

lemma reset_timers: "wf_state s \<Longrightarrow> timers (reset s) = []"
  by (auto simp: wf_state_def reset_def Let_def updateTime_def stop_def clearInterval_def
      split: option.splits)

lemma start_timers:
  "wf_state s \<Longrightarrow> timers (state_of (start s)) = (if running s then timers s else [next_handle s])"
  by (auto simp: wf_state_def start_def setPhase_def phases_at_Some setInterval_def
      updateTime_def applyTransitionDuration_def split: option.splits)

section \<open>\<open>reset\<close>, \<open>start\<close> and the two change handlers\<close>

text \<open>
  C1. Whatever the state \<open>reset()\<close> is called in, if the tempo control reads as
  \<open>t > 0\<close> and the duration control as \<open>d > 0\<close>, then afterwards
  \<open>remainingSeconds = d\<close>, \<open>phaseRemainingSeconds = t\<close>, \<open>currentPhaseIndex = 0\<close>,
  the label is "Ready" and the circle is at the resting scale, the scale of the
  exhale phase.
\<close>

theorem reset_state:
  assumes "parseInt (tempoSel_value s) = Some t" and "0 < t"
    and "parseInt (durSel_value s) = Some d" and "0 < d"
  shows "timeLeft (reset s) = d \<and> phaseTimeLeft (reset s) = t \<and> phaseIdx (reset s) = 0 \<and>
         cue_textContent (reset s) = ''Ready'' \<and>
         circle_transform (reset s) = ''scale(1)'' \<and>
         circle_transform (reset s) = ''scale('' @ scale (phases ! 2) @ '')'' \<and>
         tempo (reset s) = t \<and> total (reset s) = d \<and> \<not> running (reset s) \<and>
         timeLeftEl_textContent (reset s) = fmt (of_int d)"
  using assms
  by (simp add: reset_def Let_def updateTime_def stop_def clearInterval_def or_default_def
      phases_def split: option.splits)

text \<open>The same on the example page, two seconds into a running session.\<close>

theorem reset_state_witness:
  "parseInt (tempoSel_value (run (practiceController example_doc) [Start, Tick, Tick])) = Some 4 \<and>
   parseInt (durSel_value (run (practiceController example_doc) [Start, Tick, Tick])) = Some 8 \<and>
   running (run (practiceController example_doc) [Start, Tick, Tick]) \<and>
   timeLeft (run (practiceController example_doc) [Start, Tick, Tick]) = 6 \<and>
   timeLeft (reset (run (practiceController example_doc) [Start, Tick, Tick])) = 8 \<and>
   phaseTimeLeft (reset (run (practiceController example_doc) [Start, Tick, Tick])) = 4 \<and>
   phaseIdx (reset (run (practiceController example_doc) [Start, Tick, Tick])) = 0 \<and>
   cue_textContent (reset (run (practiceController example_doc) [Start, Tick, Tick])) = ''Ready''"
proof -
  let ?s = "run (practiceController example_doc) [Start, Tick, Tick]"
  have a: "parseInt (tempoSel_value ?s) = Some 4" by code_simp
  have b: "parseInt (durSel_value ?s) = Some 8" by code_simp
  have c: "running ?s" by code_simp
  have d: "timeLeft ?s = 6" by code_simp
  from reset_state [OF a _ b] a b c d show ?thesis by simp
qed

text \<open>
  C5. \<open>start()\<close> is idempotent: in every state, the state after two calls in a row is
  the state after one (all of it: the running flag, the counters, the phase index, the
  buttons, the label and the time shown, the timers), the second call returns, and
  \<open>start()\<close> changes nothing when the timer is running already.
\<close>

theorem start_idempotent:
  "state_of (start (state_of (start s))) = state_of (start s) \<and>
   returned (start (state_of (start s))) \<and>
   (running s \<longrightarrow> start s = Returned s)"
  by (auto simp: start_def setPhase_def setInterval_def updateTime_def
      applyTransitionDuration_def split: option.splits)

theorem start_idempotent_witness:
  "running (run (practiceController example_doc) [Start]) \<and>
   start (run (practiceController example_doc) [Start]) =
     Returned (run (practiceController example_doc) [Start]) \<and>
   \<not> running (practiceController example_doc) \<and>
   state_of (start (state_of (start (practiceController example_doc)))) =
     state_of (start (practiceController example_doc))"
proof -
  have r: "running (run (practiceController example_doc) [Start])" by code_simp
  have n: "\<not> running (practiceController example_doc)" by code_simp
  from start_idempotent [of "run (practiceController example_doc) [Start]"]
    start_idempotent [of "practiceController example_doc"] r n
  show ?thesis by simp
qed

text \<open>
  C8. A change of the duration sets \<open>remainingSeconds\<close> to the smaller of its old
  value and the new total, and leaves the phase index, \<open>phaseRemainingSeconds\<close>, the
  tempo and the running flag as they are: besides the total itself, only
  \<open>remainingSeconds\<close> and the time shown change.
\<close>

theorem durSel_change_frame:
  "timeLeft (durSel_change s) = min (timeLeft s) (total (durSel_change s)) \<and>
   total (durSel_change s) = or_default (parseInt (durSel_value s)) 60 \<and>
   phaseIdx (durSel_change s) = phaseIdx s \<and>
   phaseTimeLeft (durSel_change s) = phaseTimeLeft s \<and>
   tempo (durSel_change s) = tempo s \<and>
   running (durSel_change s) = running s \<and>
   durSel_change s =
     s\<lparr>total := or_default (parseInt (durSel_value s)) 60,
       timeLeft := min (timeLeft s) (or_default (parseInt (durSel_value s)) 60),
       timeLeftEl_textContent :=
         fmt (of_int (min (timeLeft s) (or_default (parseInt (durSel_value s)) 60)))\<rparr>"
  by (simp add: durSel_change_def Let_def updateTime_def)

text \<open>
  C10. A control value that parses to 0 gives the default (tempo 4, duration 60) in
  \<open>reset\<close> and in both change handlers, although parsing succeeded; a value that
  parses to a negative integer is taken as it is, and \<open>reset\<close> starts both countdowns
  from it.
\<close>

theorem zero_default_negative_kept:
  "(parseInt (tempoSel_value s) = Some 0 \<longrightarrow>
      tempo (reset s) = 4 \<and> tempo (tempoSel_change s) = 4) \<and>
   (parseInt (durSel_value s) = Some 0 \<longrightarrow>
      total (reset s) = 60 \<and> total (durSel_change s) = 60) \<and>
   (parseInt (tempoSel_value s) = Some n \<and> n < 0 \<longrightarrow>
      tempo (reset s) = n \<and> phaseTimeLeft (reset s) = n \<and> tempo (tempoSel_change s) = n) \<and>
   (parseInt (durSel_value s) = Some n \<and> n < 0 \<longrightarrow>
      total (reset s) = n \<and> timeLeft (reset s) = n \<and> total (durSel_change s) = n)"
  by (simp add: reset_def tempoSel_change_def durSel_change_def Let_def updateTime_def
      stop_def clearInterval_def or_default_def split: option.splits)

theorem zero_default_negative_kept_witness:
  "parseInt ''0'' = Some 0 \<and> parseInt ''-3'' = Some (- 3) \<and>
   tempo (reset ((practiceController example_doc)
                   \<lparr>tempoSel_value := ''0'', durSel_value := ''-3''\<rparr>)) = 4 \<and>
   total (reset ((practiceController example_doc)
                   \<lparr>tempoSel_value := ''0'', durSel_value := ''-3''\<rparr>)) = - 3 \<and>
   timeLeft (reset ((practiceController example_doc)
                      \<lparr>tempoSel_value := ''0'', durSel_value := ''-3''\<rparr>)) = - 3 \<and>
   tempo (tempoSel_change ((practiceController example_doc)
                             \<lparr>tempoSel_value := ''-3'', durSel_value := ''0''\<rparr>)) = - 3 \<and>
   total (durSel_change ((practiceController example_doc)
                           \<lparr>tempoSel_value := ''-3'', durSel_value := ''0''\<rparr>)) = 60"
proof -
  have z: "parseInt ''0'' = Some 0" and m: "parseInt ''-3'' = Some (- 3)"
    by (simp_all add: parse_defs)
  from zero_default_negative_kept
         [of "(practiceController example_doc)\<lparr>tempoSel_value := ''0'', durSel_value := ''-3''\<rparr>"
             "- 3"]
       zero_default_negative_kept
         [of "(practiceController example_doc)\<lparr>tempoSel_value := ''-3'', durSel_value := ''0''\<rparr>"
             "- 3"]
       z m
  show ?thesis by simp
qed

section \<open>A change of the tempo\<close>

text \<open>
  C4 as stated fails: on the example page, two seconds into the first phase,
  \<open>phaseRemainingSeconds\<close> is 2; choosing the tempo 6 sets it to 6 at once, in the
  middle of the phase.
\<close>

theorem tempo_change_immediate_counterexample:
  "running (run (practiceController example_doc) [Start, Tick, Tick]) \<and>
   phaseTimeLeft (run (practiceController example_doc) [Start, Tick, Tick]) = 2 \<and>
   phaseTimeLeft (run (practiceController example_doc) [Start, Tick, Tick, TempoChange ''6'']) = 6 \<and>
   phaseTimeLeft (run (practiceController example_doc) [Start, Tick, Tick, TempoChange ''6''])
     \<noteq> phaseTimeLeft (run (practiceController example_doc) [Start, Tick, Tick])"
  by code_simp

text \<open>
  C4, amended. A change of the tempo sets the tempo to the value read from the
  control and sets \<open>phaseRemainingSeconds\<close> to the new tempo at once; nothing else
  changes: the phase index, the label, and the target and transition duration of the
  animation stay as they are.
\<close>

theorem tempoSel_change_effect:
  "tempo (tempoSel_change s) = or_default (parseInt (tempoSel_value s)) 4 \<and>
   phaseTimeLeft (tempoSel_change s) = or_default (parseInt (tempoSel_value s)) 4 \<and>
   phaseIdx (tempoSel_change s) = phaseIdx s \<and>
   cue_textContent (tempoSel_change s) = cue_textContent s \<and>
   circle_transition (tempoSel_change s) = circle_transition s \<and>
   circle_transform (tempoSel_change s) = circle_transform s \<and>
   tempoSel_change s =
     s\<lparr>tempo := or_default (parseInt (tempoSel_value s)) 4,
       phaseTimeLeft := or_default (parseInt (tempoSel_value s)) 4\<rparr>"
  by (simp add: tempoSel_change_def Let_def)

section \<open>The interval timers\<close>

text \<open>
  C6 as stated fails for \<open>start()\<close>: called while the timer runs it returns at once,
  and the interval timer scheduled before (handle 1 on the example page) is as active
  after the call as it was before.
\<close>

theorem start_keeps_timer_counterexample:
  "running (run (practiceController example_doc) [Start]) \<and>
   1 \<in> set (timers (run (practiceController example_doc) [Start])) \<and>
   1 \<in> set (timers (state_of (start (run (practiceController example_doc) [Start]))))"
  by code_simp

text \<open>
  C6, amended. After any sequence of events the number of active interval timers is 1
  while running and 0 otherwise, so two never coexist; \<open>pause()\<close> and \<open>reset()\<close>
  leave no timer active; \<open>start()\<close> schedules one new timer when the timer is not
  running (none is active then) and keeps the active one, without cancelling it, when
  the timer is running.
\<close>

theorem single_timer:
  "length (timers (run (practiceController d) es)) =
     (if running (run (practiceController d) es) then 1 else 0) \<and>
   timers (pause (run (practiceController d) es)) = [] \<and>
   timers (reset (run (practiceController d) es)) = [] \<and>
   timers (state_of (start (run (practiceController d) es))) =
     (if running (run (practiceController d) es) then timers (run (practiceController d) es)
      else [next_handle (run (practiceController d) es)])"
  using wf_reachable [of d es]
  by (simp add: wf_timers pause_timers reset_timers start_timers)

section \<open>The countdown\<close>

text \<open>
  C2 as stated fails: with tempo 4 and duration 8, after \<open>start()\<close> and eight ticks
  the timer is not in the state Complete.
\<close>

theorem eight_ticks_counterexample:
  "\<not> (\<not> running (run (practiceController example_doc) (Start # replicate 8 Tick)) \<and>
      cue_textContent (run (practiceController example_doc) (Start # replicate 8 Tick)) =
        ''Complete'' \<and>
      timeLeft (run (practiceController example_doc) (Start # replicate 8 Tick)) = 0)"
  by code_simp

text \<open>
  C2, amended. With tempo 4 and duration 8, after \<open>start()\<close> from the just-reset
  state and eight ticks \<open>remainingSeconds\<close> is 0 while the timer is still running and
  the label reads "Hold"; the ninth tick puts the timer in the state Complete: it is
  not running, no interval timer is active, the label reads "Complete" and
  \<open>remainingSeconds\<close> is 0.
\<close>

theorem nine_ticks_complete:
  assumes "parseInt (doc_tempo d) = Some 4" and "parseInt (doc_duration d) = Some 8"
  shows "timeLeft (run (practiceController d) (Start # replicate 8 Tick)) = 0 \<and>
         running (run (practiceController d) (Start # replicate 8 Tick)) \<and>
         cue_textContent (run (practiceController d) (Start # replicate 8 Tick)) = ''Hold'' \<and>
         \<not> running (run (practiceController d) (Start # replicate 9 Tick)) \<and>
         timers (run (practiceController d) (Start # replicate 9 Tick)) = [] \<and>
         cue_textContent (run (practiceController d) (Start # replicate 9 Tick)) = ''Complete'' \<and>
         timeLeft (run (practiceController d) (Start # replicate 9 Tick)) = 0"
proof -
  let ?s1 = "step (practiceController d) Start"
  let ?s8 = "run ?s1 (replicate (Suc 7) Tick)"
  note f = started_fields [of d]
  have t: "tempo ?s1 = int 4" and p: "phaseTimeLeft ?s1 = int 4"
    and l: "int (Suc 7) \<le> timeLeft ?s1"
    using f assms by (simp_all add: or_default_def del: step.simps)
  have w: "wf_state ?s1" and r: "running ?s1"
    using f by (simp_all del: step.simps)
  have tl: "timeLeft ?s1 = 8"
    using f assms by (simp add: or_default_def del: step.simps)
  have i: "phaseIdx ?s1 = 0"
    using f by (simp del: step.simps)
  from run_ticks_phase [OF w r t _ p l]
  have e8: "running ?s8" "timeLeft ?s8 = 0" "phaseIdx ?s8 = 1"
    unfolding tl i by (simp_all del: step.simps replicate.simps)
  have w8: "wf_state ?s8"
    using w by (rule wf_run)
  then have "cue_textContent ?s8 = label (phases ! nat (phaseIdx ?s8))"
    using e8(1) by (simp add: wf_state_def del: step.simps replicate.simps)
  then have h: "cue_textContent ?s8 = ''Hold''"
    unfolding e8(3) by (simp add: phases_def)
  have nine: "replicate 9 Tick = replicate (Suc 7) Tick @ [Tick]"
    by (simp add: eval_nat_numeral)
  have s9: "run (practiceController d) (Start # replicate 9 Tick) = step ?s8 Tick"
    unfolding nine run_Cons run_snoc ..
  have s8: "run (practiceController d) (Start # replicate 8 Tick) = ?s8"
    unfolding run_Cons by simp
  from tick_complete [OF w8 e8(1)] e8 h show ?thesis
    unfolding s9 s8 by (simp del: step.simps replicate.simps)
qed

theorem nine_ticks_complete_witness:
  "parseInt (doc_tempo example_doc) = Some 4 \<and> parseInt (doc_duration example_doc) = Some 8 \<and>
   running (run (practiceController example_doc) (Start # replicate 8 Tick)) \<and>
   timeLeft (run (practiceController example_doc) (Start # replicate 8 Tick)) = 0 \<and>
   \<not> running (run (practiceController example_doc) (Start # replicate 9 Tick)) \<and>
   cue_textContent (run (practiceController example_doc) (Start # replicate 9 Tick)) =
     ''Complete'' \<and>
   timeLeft (run (practiceController example_doc) (Start # replicate 9 Tick)) = 0"
proof -
  have a: "parseInt (doc_tempo example_doc) = Some 4"
    and b: "parseInt (doc_duration example_doc) = Some 8"
    by (simp_all add: example_doc_def parse_defs)
  from nine_ticks_complete [OF a b] a b show ?thesis by simp
qed

text \<open>
  C3. In every state the page can reach, with \<open>remainingSeconds\<close> below \<open>2 ^ 53\<close>
  (where the source's subtraction of 1 is exact): a tick of the running timer with
  \<open>remainingSeconds > 0\<close> decreases it by exactly 1 and the timer keeps running; a tick
  of the running timer with \<open>remainingSeconds \<le> 0\<close> stops the timer (no interval
  timer remains) and leaves \<open>remainingSeconds\<close> as it is; a tick of a timer that is not
  running changes nothing. So from a running state with \<open>remainingSeconds \<ge> 0\<close>,
  after \<open>k\<close> ticks \<open>remainingSeconds\<close> is the old value less \<open>k\<close>, but never below 0,
  and the timer is running exactly while \<open>k\<close> is at most the old value.
\<close>

theorem ticks_decrement_until_zero:
  "(running (run (practiceController d) es) \<and> 0 < timeLeft (run (practiceController d) es) \<and>
    timeLeft (run (practiceController d) es) < 2 ^ 53 \<longrightarrow>
      timeLeft (step (run (practiceController d) es) Tick) =
        timeLeft (run (practiceController d) es) - 1 \<and>
      running (step (run (practiceController d) es) Tick)) \<and>
   (running (run (practiceController d) es) \<and> timeLeft (run (practiceController d) es) \<le> 0 \<longrightarrow>
      \<not> running (step (run (practiceController d) es) Tick) \<and>
      timers (step (run (practiceController d) es) Tick) = [] \<and>
      timeLeft (step (run (practiceController d) es) Tick) =
        timeLeft (run (practiceController d) es)) \<and>
   (\<not> running (run (practiceController d) es) \<longrightarrow>
      step (run (practiceController d) es) Tick = run (practiceController d) es) \<and>
   (running (run (practiceController d) es) \<and> 0 \<le> timeLeft (run (practiceController d) es) \<and>
    timeLeft (run (practiceController d) es) < 2 ^ 53 \<longrightarrow>
      timeLeft (run (run (practiceController d) es) (replicate k Tick)) =
        max 0 (timeLeft (run (practiceController d) es) - int k) \<and>
      running (run (run (practiceController d) es) (replicate k Tick)) =
        (int k \<le> timeLeft (run (practiceController d) es)))"
proof -
  let ?s = "run (practiceController d) es"
  have w: "wf_state ?s" by (rule wf_reachable)
  show ?thesis
    using tick_countdown [OF w] tick_complete [OF w] step_Tick_idle [of ?s]
      run_ticks_countdown [OF w, of k]
    by (simp del: step.simps)
qed

text \<open>
  On the example page: the first tick after \<open>start()\<close> takes 8 to 7; twelve ticks take
  8 to 0, not below, and leave the timer stopped; the tick at 0 stops the timer; a
  tick before \<open>start()\<close> does nothing.
\<close>

theorem ticks_decrement_until_zero_witness:
  "running (run (practiceController example_doc) [Start]) \<and>
   timeLeft (run (practiceController example_doc) [Start]) = 8 \<and>
   timeLeft (run (practiceController example_doc) [Start]) < 2 ^ 53 \<and>
   timeLeft (step (run (practiceController example_doc) [Start]) Tick) = 7 \<and>
   timeLeft (run (run (practiceController example_doc) [Start]) (replicate 12 Tick)) = 0 \<and>
   \<not> running (run (run (practiceController example_doc) [Start]) (replicate 12 Tick)) \<and>
   running (run (practiceController example_doc) (Start # replicate 8 Tick)) \<and>
   timeLeft (run (practiceController example_doc) (Start # replicate 8 Tick)) = 0 \<and>
   \<not> running (step (run (practiceController example_doc) (Start # replicate 8 Tick)) Tick) \<and>
   timeLeft (step (run (practiceController example_doc) (Start # replicate 8 Tick)) Tick) = 0 \<and>
   \<not> running (run (practiceController example_doc) []) \<and>
   step (run (practiceController example_doc) []) Tick = run (practiceController example_doc) []"
proof -
  have a: "running (run (practiceController example_doc) [Start])"
    and b: "timeLeft (run (practiceController example_doc) [Start]) = 8"
    and c: "running (run (practiceController example_doc) (Start # replicate 8 Tick))"
    and d: "timeLeft (run (practiceController example_doc) (Start # replicate 8 Tick)) = 0"
    and e: "\<not> running (run (practiceController example_doc) [])"
    by code_simp+
  from ticks_decrement_until_zero [of example_doc "[Start]" 12]
    ticks_decrement_until_zero [of example_doc "Start # replicate 8 Tick" 0]
    ticks_decrement_until_zero [of example_doc "[]" 0] a b c d e
  show ?thesis
    by (simp del: step.simps replicate.simps)
qed

section \<open>The cycle of phases\<close>

text \<open>
  C7. In every state the page can reach the phase index is in \<open>[0,4)\<close>. A tick of the
  running timer at a phase boundary (\<open>phaseRemainingSeconds \<le> 0\<close>) advances the
  index by 1 modulo 4, and a tick inside a phase leaves it alone. Starting from phase 0
  with tempo 4, the index is 0 after exactly four ticks (the first boundary is crossed
  by the fifth). For any tempo \<open>t > 0\<close>, from the beginning of a phase and while the
  session lasts, tick \<open>m + 1\<close> has advanced the index \<open>m div t\<close> times, and \<open>4 * t\<close>
  ticks later the index is the same again: the cycle has four phases whatever the
  tempo.
\<close>

theorem phase_cycle:
  "0 \<le> phaseIdx (run (practiceController d) es) \<and>
   phaseIdx (run (practiceController d) es) < 4 \<and>
   (running (run (practiceController d) es) \<and>
    phaseTimeLeft (run (practiceController d) es) \<le> 0 \<longrightarrow>
      phaseIdx (step (run (practiceController d) es) Tick) =
        (phaseIdx (run (practiceController d) es) + 1) mod 4) \<and>
   (0 < phaseTimeLeft (run (practiceController d) es) \<longrightarrow>
      phaseIdx (step (run (practiceController d) es) Tick) =
        phaseIdx (run (practiceController d) es)) \<and>
   (parseInt (doc_tempo d) = Some 4 \<longrightarrow>
      phaseIdx (run (practiceController d) (Start # replicate 4 Tick)) = 0) \<and>
   (running (run (practiceController d) es) \<and> 0 < t \<and>
    tempo (run (practiceController d) es) = int t \<and>
    phaseTimeLeft (run (practiceController d) es) = int t \<and>
    int (Suc m) + 4 * int t \<le> timeLeft (run (practiceController d) es) \<longrightarrow>
      phaseIdx (run (run (practiceController d) es) (replicate (Suc m) Tick)) =
        (phaseIdx (run (practiceController d) es) + int (m div t)) mod 4 \<and>
      phaseIdx (run (run (practiceController d) es) (replicate (Suc (m + 4 * t)) Tick)) =
        phaseIdx (run (run (practiceController d) es) (replicate (Suc m) Tick)))"
proof -
  let ?s = "run (practiceController d) es"
  have w: "wf_state ?s" by (rule wf_reachable)
  have bounds: "0 \<le> phaseIdx ?s \<and> phaseIdx ?s < 4"
    using w by (simp add: wf_state_def)
  have boundary: "phaseIdx (step ?s Tick) = (phaseIdx ?s + 1) mod 4"
    if "running ?s" "phaseTimeLeft ?s \<le> 0"
  proof (cases "0 < timeLeft ?s")
    case True
    from tick_countdown [OF w that(1) True] that(2) show ?thesis by simp
  next
    case False
    then have "timeLeft ?s \<le> 0" by simp
    from tick_complete [OF w that(1) this] that(2) show ?thesis by simp
  qed
  have inside: "phaseIdx (step ?s Tick) = phaseIdx ?s" if "0 < phaseTimeLeft ?s"
  proof -
    have "int 1 \<le> phaseTimeLeft ?s" using that by simp
    from run_ticks_no_boundary [OF w this] show ?thesis
      by (simp add: run_def del: step.simps)
  qed
  have four: "phaseIdx (run (practiceController d) (Start # replicate 4 Tick)) = 0"
    if "parseInt (doc_tempo d) = Some 4"
  proof -
    note f = started_fields [of d]
    have "int 4 \<le> phaseTimeLeft (step (practiceController d) Start)"
      using f that by (simp add: or_default_def del: step.simps)
    moreover have "wf_state (step (practiceController d) Start)"
      using f by (simp del: step.simps)
    ultimately have "phaseIdx (run (step (practiceController d) Start) (replicate 4 Tick)) =
        phaseIdx (step (practiceController d) Start)"
      by (rule run_ticks_no_boundary [rotated])
    then show ?thesis
      using f by (simp add: run_Cons del: step.simps)
  qed
  have cycle:
    "phaseIdx (run ?s (replicate (Suc m) Tick)) = (phaseIdx ?s + int (m div t)) mod 4 \<and>
     phaseIdx (run ?s (replicate (Suc (m + 4 * t)) Tick)) =
       phaseIdx (run ?s (replicate (Suc m) Tick))"
    if r: "running ?s" and t: "0 < t" "tempo ?s = int t" and p: "phaseTimeLeft ?s = int t"
      and l: "int (Suc m) + 4 * int t \<le> timeLeft ?s"
  proof -
    have l1: "int (Suc m) \<le> timeLeft ?s" and l2: "int (Suc (m + 4 * t)) \<le> timeLeft ?s"
      using l by simp_all
    have d: "(m + 4 * t) div t = m div t + 4"
      using t(1) by simp
    have a: "phaseIdx (run ?s (replicate (Suc m) Tick)) = (phaseIdx ?s + int (m div t)) mod 4"
      using run_ticks_phase [OF w r t(2,1) p l1] by simp
    have "phaseIdx (run ?s (replicate (Suc (m + 4 * t)) Tick)) =
        (phaseIdx ?s + int ((m + 4 * t) div t)) mod 4"
      using run_ticks_phase [OF w r t(2,1) p l2] by simp
    also have "\<dots> = (phaseIdx ?s + int (m div t) + 4) mod 4"
      unfolding d by (simp add: add.assoc)
    also have "\<dots> = (phaseIdx ?s + int (m div t)) mod 4"
      by simp
    finally show ?thesis
      using a by simp
  qed
  from bounds boundary inside four cycle show ?thesis
    by blast
qed

text \<open>
  On the example page: the fifth tick crosses the first boundary and takes the index
  from 0 to 1, a tick inside the first phase leaves it at 0, and with a duration of 60
  seconds the index is 1 after 5 ticks and again after 21.
\<close>

theorem phase_cycle_witness:
  "running (run (practiceController example_doc) (Start # replicate 4 Tick)) \<and>
   phaseTimeLeft (run (practiceController example_doc) (Start # replicate 4 Tick)) = 0 \<and>
   phaseIdx (run (practiceController example_doc) (Start # replicate 4 Tick)) = 0 \<and>
   phaseIdx (step (run (practiceController example_doc) (Start # replicate 4 Tick)) Tick) = 1 \<and>
   phaseTimeLeft (run (practiceController example_doc) [Start]) = 4 \<and>
   phaseIdx (step (run (practiceController example_doc) [Start]) Tick) = 0 \<and>
   parseInt (doc_tempo example_doc) = Some 4 \<and>
   running (run (practiceController example_doc) [DurationChange ''60'', Reset, Start]) \<and>
   timeLeft (run (practiceController example_doc) [DurationChange ''60'', Reset, Start]) = 60 \<and>
   phaseIdx (run (run (practiceController example_doc) [DurationChange ''60'', Reset, Start])
               (replicate 5 Tick)) = 1 \<and>
   phaseIdx (run (run (practiceController example_doc) [DurationChange ''60'', Reset, Start])
               (replicate 21 Tick)) = 1"
proof -
  let ?a = "run (practiceController example_doc) (Start # replicate 4 Tick)"
  let ?b = "run (practiceController example_doc) [Start]"
  let ?c = "run (practiceController example_doc) [DurationChange ''60'', Reset, Start]"
  have a: "running ?a" "phaseTimeLeft ?a = 0" "phaseIdx ?a = 0"
    by code_simp+
  have b: "phaseTimeLeft ?b = 4" "phaseIdx ?b = 0"
    by code_simp+
  have p: "parseInt (doc_tempo example_doc) = Some 4"
    by (simp add: example_doc_def parse_defs)
  have c: "running ?c" "tempo ?c = int 4" "phaseTimeLeft ?c = int 4" "timeLeft ?c = 60"
    "phaseIdx ?c = 0"
    by code_simp+
  have n: "Suc 4 = 5" "Suc (4 + 4 * 4) = 21"
    by simp_all
  from phase_cycle [of example_doc "Start # replicate 4 Tick" 1 0]
    phase_cycle [of example_doc "[Start]" 1 0]
    phase_cycle [of example_doc "[DurationChange ''60'', Reset, Start]" 4 4]
    a b p c
  show ?thesis
    unfolding n by (simp del: step.simps replicate.simps)
qed

end
